theory Spec2Isabelle
  imports Main
begin

section \<open>Go strings\<close>

text \<open>
  A Go string is a sequence of bytes, here a \<^typ>\<open>string\<close>. The resource file uses
  \<^verbatim>\<open>strings.Split\<close> with the one-byte separator \<^verbatim>\<open>"|"\<close> and \<^verbatim>\<open>fmt.Sprintf("%s|%s", a, b)\<close>.
  \<^verbatim>\<open>strings.Split(s, sep)\<close> returns the pieces of \<open>s\<close> between the occurrences of \<open>sep\<close>:
  one piece more than there are separators, so \<^verbatim>\<open>[""]\<close> for the empty string.
\<close>

fun strings_Split :: "string \<Rightarrow> char \<Rightarrow> string list" where
  "strings_Split [] sep = [[]]"
| "strings_Split (c # cs) sep =
     (if c = sep then [] # strings_Split cs sep
      else (case strings_Split cs sep of
              [] \<Rightarrow> [[c]]
            | p # ps \<Rightarrow> (c # p) # ps))"

text \<open>\<^verbatim>\<open>strings.HasPrefix\<close> and \<^verbatim>\<open>strings.Contains\<close>.\<close>

definition strings_HasPrefix :: "string \<Rightarrow> string \<Rightarrow> bool" where
  "strings_HasPrefix s pre = (take (length pre) s = pre)"

fun strings_Contains :: "string \<Rightarrow> string \<Rightarrow> bool" where
  "strings_Contains [] substr = (substr = [])"
| "strings_Contains (c # cs) substr =
     (strings_HasPrefix (c # cs) substr \<or> strings_Contains cs substr)"

section \<open>Errors\<close>

text \<open>
  A Go \<^verbatim>\<open>error\<close> value. \<open>AWSError code message\<close> is an \<^verbatim>\<open>awserr.Error\<close> of the AWS SDK,
  \<open>TimeoutError\<close> is the \<^verbatim>\<open>*resource.TimeoutError\<close> of a retry that ran out of time,
  \<open>OtherError\<close> is any other failure of a remote call, and \<open>Errorf format args cause\<close> is
  the value of \<^verbatim>\<open>fmt.Errorf(format, args..., cause)\<close>, kept unformatted.
  A function that returns \<^verbatim>\<open>error\<close> returns a \<open>fault option\<close>: \<open>None\<close> is \<^verbatim>\<open>nil\<close>,
  \<open>Some (Err e)\<close> an error, and \<open>Some Panic\<close> a run-time panic (a nil pointer dereference).
\<close>

datatype error =
    AWSError string string
  | TimeoutError
  | OtherError string
  | Errorf string "string list" "error option"

datatype fault = Err error | Panic

section \<open>The resource identifier\<close>

text \<open>Line 103 of the resource file: \<^verbatim>\<open>fmt.Sprintf("%s|%s", secretID, versionID)\<close>.\<close>

definition encodeSecretsManagerSecretVersionID :: "string \<Rightarrow> string \<Rightarrow> string" where
  "encodeSecretsManagerSecretVersionID secretID versionID = secretID @ ''|'' @ versionID"

definition decodeSecretsManagerSecretVersionID :: "string \<Rightarrow> error + string \<times> string" where
  "decodeSecretsManagerSecretVersionID ident =
     (let idParts = strings_Split ident (CHR ''|'') in
      if length idParts \<noteq> 2
      then Inl (Errorf ''expected ID in format SecretID|VersionID, received: %s'' [ident] None)
      else Inr (idParts ! 0, idParts ! 1))"

section \<open>The Secrets Manager client\<close>

text \<open>
  The string constants of the resource file. The message of the "secret was deleted"
  error has a typographic apostrophe (U+2019), three bytes in UTF-8.
\<close>

definition AWSCURRENT :: string where
  "AWSCURRENT = ''AWSCURRENT''"

definition ErrCodeResourceNotFoundException :: string where
  "ErrCodeResourceNotFoundException = ''ResourceNotFoundException''"

definition ErrCodeInvalidRequestException :: string where
  "ErrCodeInvalidRequestException = ''InvalidRequestException''"

definition secretDeletedMessage :: string where
  "secretDeletedMessage =
     ''You can'' @ [CHR 0xE2, CHR 0x80, CHR 0x99] @
     ''t perform this operation on the secret because it was deleted''"

text \<open>
  The request and response structures of the AWS SDK that the resource file reads and
  writes. A \<^verbatim>\<open>*string\<close> that may be nil is a \<open>string option\<close>; a field that the code
  always sets through \<^verbatim>\<open>aws.String\<close> is a \<open>string\<close>.
\<close>

record SecretVersionsListEntry =
  VersionId :: "string option"
  VersionStages :: "string option list"

record ListSecretVersionIdsInput =
  lvi_NextToken :: "string option"
  lvi_SecretId :: string

record ListSecretVersionIdsOutput =
  Versions :: "SecretVersionsListEntry list"
  NextToken :: "string option"

record UpdateSecretVersionStageInput =
  MoveToVersionId :: "string option"
  RemoveFromVersionId :: "string option"
  SecretId :: string
  VersionStage :: string

record GetSecretValueInput =
  gvi_SecretId :: string
  gvi_VersionId :: string

record GetSecretValueOutput =
  gvo_ARN :: "string option"
  gvo_SecretBinary :: string
  gvo_SecretString :: "string option"
  gvo_VersionId :: "string option"
  gvo_VersionStages :: "string list"

text \<open>
  Every remote call is recorded with its request and its response. The client \<open>conn\<close>
  is any deterministic remote store: what a call returns may depend on the request and
  on all the calls made before it. A call that returns no error returns a non-nil
  output, as the SDK does; only \<^verbatim>\<open>GetSecretValue\<close>, whose output the code tests against
  nil, returns the output and the error side by side.
\<close>

datatype event =
    EvDescribeSecret string "error option"
  | EvListSecretVersionIds ListSecretVersionIdsInput "error + ListSecretVersionIdsOutput"
  | EvUpdateSecretVersionStage UpdateSecretVersionStageInput "error option"
  | EvGetSecretValue GetSecretValueInput "GetSecretValueOutput option \<times> error option"

record conn =
  DescribeSecret :: "event list \<Rightarrow> string \<Rightarrow> error option"
  ListSecretVersionIds ::
    "event list \<Rightarrow> ListSecretVersionIdsInput \<Rightarrow> error + ListSecretVersionIdsOutput"
  UpdateSecretVersionStage :: "event list \<Rightarrow> UpdateSecretVersionStageInput \<Rightarrow> error option"
  GetSecretValue ::
    "event list \<Rightarrow> GetSecretValueInput \<Rightarrow> GetSecretValueOutput option \<times> error option"

text \<open>
  A line written by \<^verbatim>\<open>log.Printf\<close>: the format and its arguments, unformatted.
  The effects of an operation are the calls it made and the lines it logged.
\<close>

datatype logline =
    Printf string "string list"
  | PrintfInput string UpdateSecretVersionStageInput

record io =
  calls :: "event list"
  logs :: "logline list"

definition logPrintf :: "string \<Rightarrow> string list \<Rightarrow> io \<Rightarrow> io" where
  "logPrintf format args w = w\<lparr>logs := logs w @ [Printf format args]\<rparr>"

definition logPrintfInput :: "string \<Rightarrow> UpdateSecretVersionStageInput \<Rightarrow> io \<Rightarrow> io" where
  "logPrintfInput format input w = w\<lparr>logs := logs w @ [PrintfInput format input]\<rparr>"

definition conn_DescribeSecret :: "conn \<Rightarrow> string \<Rightarrow> io \<Rightarrow> error option \<times> io" where
  "conn_DescribeSecret c secretID w =
     (let err = DescribeSecret c (calls w) secretID
      in (err, w\<lparr>calls := calls w @ [EvDescribeSecret secretID err]\<rparr>))"

definition conn_ListSecretVersionIds ::
  "conn \<Rightarrow> ListSecretVersionIdsInput \<Rightarrow> io \<Rightarrow> (error + ListSecretVersionIdsOutput) \<times> io" where
  "conn_ListSecretVersionIds c input w =
     (let r = ListSecretVersionIds c (calls w) input
      in (r, w\<lparr>calls := calls w @ [EvListSecretVersionIds input r]\<rparr>))"

definition conn_UpdateSecretVersionStage ::
  "conn \<Rightarrow> UpdateSecretVersionStageInput \<Rightarrow> io \<Rightarrow> error option \<times> io" where
  "conn_UpdateSecretVersionStage c input w =
     (let err = UpdateSecretVersionStage c (calls w) input
      in (err, w\<lparr>calls := calls w @ [EvUpdateSecretVersionStage input err]\<rparr>))"

definition conn_GetSecretValue ::
  "conn \<Rightarrow> GetSecretValueInput \<Rightarrow> io \<Rightarrow> GetSecretValueOutput option \<times> error option \<times> io" where
  "conn_GetSecretValue c input w =
     (let r = GetSecretValue c (calls w) input
      in (fst r, snd r, w\<lparr>calls := calls w @ [EvGetSecretValue input r]\<rparr>))"

section \<open>Error classification and retry\<close>

text \<open>
  \<^verbatim>\<open>tfawserr.ErrCodeEquals\<close> and \<^verbatim>\<open>tfawserr.ErrMessageContains\<close> of the library
  aws-sdk-go-base: the error is an AWS error with the given code (and its message contains
  the given text). A nil error matches nothing.
\<close>

definition ErrCodeEquals :: "error option \<Rightarrow> string \<Rightarrow> bool" where
  "ErrCodeEquals err code =
     (case err of Some (AWSError c m) \<Rightarrow> c = code | _ \<Rightarrow> False)"

definition ErrMessageContains :: "error option \<Rightarrow> string \<Rightarrow> string \<Rightarrow> bool" where
  "ErrMessageContains err code message =
     (case err of Some (AWSError c m) \<Rightarrow> c = code \<and> strings_Contains m message | _ \<Rightarrow> False)"

text \<open>
  Modelled from the spec: \<^verbatim>\<open>isAWSErr\<close> (aws/awserr.go, not under src/), the test for the
  "absence errors" of the deletion path: an AWS error with the given code whose message
  contains the given text.
\<close>

definition isAWSErr :: "error \<Rightarrow> string \<Rightarrow> string \<Rightarrow> bool" where
  "isAWSErr err code message =
     (case err of AWSError c m \<Rightarrow> c = code \<and> strings_Contains m message | _ \<Rightarrow> False)"

text \<open>
  Modelled from the spec: \<^verbatim>\<open>tfresource.TimedOut\<close> (aws/internal/tfresource, not under
  src/): the error is the timeout of the retry window.
\<close>

definition TimedOut :: "error option \<Rightarrow> bool" where
  "TimedOut err = (err = Some TimeoutError)"

text \<open>
  \<^verbatim>\<open>resource.RetryError\<close>, \<^verbatim>\<open>resource.RetryableError\<close> and
  \<^verbatim>\<open>resource.NonRetryableError\<close> of the plugin SDK; both constructors return nil for a
  nil error.
\<close>

datatype RetryError = RetryError error bool

definition RetryableError :: "error option \<Rightarrow> RetryError option" where
  "RetryableError err = (case err of None \<Rightarrow> None | Some e \<Rightarrow> Some (RetryError e True))"

definition NonRetryableError :: "error option \<Rightarrow> RetryError option" where
  "NonRetryableError err = (case err of None \<Rightarrow> None | Some e \<Rightarrow> Some (RetryError e False))"

text \<open>
  Modelled from the spec: \<^verbatim>\<open>resource.Retry\<close> of the plugin SDK (not under src/), section
  4.1. The attempt is repeated while it reports a retryable error; the fixed timeout
  window is the number \<open>budget\<close> of further attempts that fit into it, and when it is
  used up the result is the timeout error. Success and a non-retryable error end the
  retry at once.
\<close>

fun Retry :: "nat \<Rightarrow> ('s \<Rightarrow> RetryError option \<times> 's) \<Rightarrow> 's \<Rightarrow> error option \<times> 's" where
  "Retry budget f s =
     (case f s of
        (None, s') \<Rightarrow> (None, s')
      | (Some (RetryError e retryable), s') \<Rightarrow>
          (if \<not> retryable then (Some e, s')
           else (case budget of
                   0 \<Rightarrow> (Some TimeoutError, s')
                 | Suc n \<Rightarrow> Retry n f s')))"

section \<open>The resource data\<close>

text \<open>
  The part of \<^verbatim>\<open>*schema.ResourceData\<close> that the operations use: the resource ID, the
  new-resource flag and the attributes. A \<^verbatim>\<open>*schema.Set\<close> of strings is the list that
  its \<^verbatim>\<open>List()\<close> method returns; \<open>version_stages\<close> is what \<^verbatim>\<open>d.Get\<close> returns and
  \<open>version_stages_old\<close> the old value that \<^verbatim>\<open>d.GetChange\<close> returns with it.
  \<^verbatim>\<open>Difference\<close> keeps the members of the receiver that are not members of the argument,
  in the receiver's order.
\<close>

record ResourceData =
  Id :: string
  IsNewResource :: bool
  version_stages_old :: "string list"
  version_stages :: "string list"
  secret_id :: string
  secret_string :: string
  secret_binary :: string
  version_id :: string
  arn :: string

definition Difference :: "string list \<Rightarrow> string list \<Rightarrow> string list" where
  "Difference s other = filter (\<lambda>x. x \<notin> set other) s"

definition StringValue :: "string option \<Rightarrow> string" where
  "StringValue p = (case p of None \<Rightarrow> [] | Some v \<Rightarrow> v)"

section \<open>Read\<close>

text \<open>
  Lines 123 to 141: one attempt of the retried read. The closure assigns the output of
  the call to the variable \<open>output\<close> of the enclosing function, which is the state that
  the retry carries together with the effects.
\<close>

definition Read_attempt ::
  "conn \<Rightarrow> ResourceData \<Rightarrow> GetSecretValueInput \<Rightarrow> GetSecretValueOutput option \<times> io
     \<Rightarrow> RetryError option \<times> GetSecretValueOutput option \<times> io" where
  "Read_attempt c d input s =
     (let (output, err, w) = conn_GetSecretValue c input (snd s) in
      if IsNewResource d \<and> ErrCodeEquals err ErrCodeResourceNotFoundException
      then (RetryableError err, output, w)
      else if IsNewResource d
              \<and> ErrMessageContains err ErrCodeInvalidRequestException secretDeletedMessage
      then (RetryableError err, output, w)
      else if err \<noteq> None
      then (NonRetryableError err, output, w)
      else (None, output, w))"

text \<open>
  \<^verbatim>\<open>resourceAwsSecretsManagerSecretVersionRead\<close>. \<open>base64Encode\<close> (aws/utils.go, not
  under src/) is a parameter; \<open>budget\<close> is the size of the retry window
  \<^verbatim>\<open>waiter.PropagationTimeout\<close>. Writing a nil \<^verbatim>\<open>*string\<close> with \<^verbatim>\<open>d.Set\<close> stores the empty
  string, and writing the list of stages stores the set of its members.
\<close>

definition resourceAwsSecretsManagerSecretVersionRead ::
  "(string \<Rightarrow> string) \<Rightarrow> conn \<Rightarrow> nat \<Rightarrow> ResourceData \<Rightarrow> io
     \<Rightarrow> fault option \<times> ResourceData \<times> io" where
  "resourceAwsSecretsManagerSecretVersionRead base64Encode c budget d w =
     (case decodeSecretsManagerSecretVersionID (Id d) of
        Inl e \<Rightarrow> (Some (Err e), d, w)
      | Inr (secretID, versionID) \<Rightarrow>
          (let input = \<lparr>gvi_SecretId = secretID, gvi_VersionId = versionID\<rparr>;
               (err1, output1, w1) = Retry budget (Read_attempt c d input) (None, w);
               (output, err, w2) =
                 (if TimedOut err1 then conn_GetSecretValue c input w1 else (output1, err1, w1))
           in
           if \<not> IsNewResource d \<and> ErrCodeEquals err ErrCodeResourceNotFoundException
           then (None, d\<lparr>Id := []\<rparr>,
                 logPrintf
                   ''[WARN] Secrets Manager Secret Version (%s) not found, removing from state''
                   [Id d] w2)
           else if \<not> IsNewResource d
                   \<and> ErrMessageContains err ErrCodeInvalidRequestException secretDeletedMessage
           then (None, d\<lparr>Id := []\<rparr>,
                 logPrintf
                   ''[WARN] Secrets Manager Secret Version (%s) not found, removing from state''
                   [Id d] w2)
           else
             (case err of
                Some e \<Rightarrow>
                  (Some (Err (Errorf ''error reading Secrets Manager Secret Version (%s): %w''
                                [Id d] (Some e))), d, w2)
              | None \<Rightarrow>
                  (case output of
                     None \<Rightarrow>
                       (Some (Err (Errorf
                          ''error reading Secrets Manager Secret Version (%s): empty response''
                          [Id d] None)), d, w2)
                   | Some out \<Rightarrow>
                       (None,
                        d\<lparr>secret_id := secretID,
                          secret_string := StringValue (gvo_SecretString out),
                          secret_binary := base64Encode (gvo_SecretBinary out),
                          version_id := StringValue (gvo_VersionId out),
                          arn := StringValue (gvo_ARN out),
                          version_stages := remdups (gvo_VersionStages out)\<rparr>,
                        w2)))))"

section \<open>Update\<close>

text \<open>
  Lines 228 to 237: the scan of one page. \<open>has_AWSCURRENT\<close> is the inner loop over the
  stages of a version, \<open>find_AWSCURRENT\<close> the loop over the versions; it returns the
  first version that carries the label, at which the code breaks out of the pagination.
\<close>

fun has_AWSCURRENT :: "string option list \<Rightarrow> bool" where
  "has_AWSCURRENT [] = False"
| "has_AWSCURRENT (versionStage # rest) =
     (if versionStage \<noteq> None \<and> the versionStage = AWSCURRENT then True
      else has_AWSCURRENT rest)"

fun find_AWSCURRENT :: "SecretVersionsListEntry list \<Rightarrow> SecretVersionsListEntry option" where
  "find_AWSCURRENT [] = None"
| "find_AWSCURRENT (version # rest) =
     (if has_AWSCURRENT (VersionStages version) then Some version
      else find_AWSCURRENT rest)"

text \<open>
  Lines 218 to 244: the pagination loop \<^verbatim>\<open>loopListVersionIDsPagination\<close>. It ends with an
  error, or with the value of \<^verbatim>\<open>awsCurrentStageVersionID\<close>: the ID of the first version
  found with the label, or nil when the last page is reached without one. A remote store
  that always returns a continuation token keeps it running for ever, and then the
  function has no value (\<open>None\<close>).
\<close>

partial_function (option) loopListVersionIDsPagination ::
  "conn \<Rightarrow> string \<Rightarrow> string \<Rightarrow> string option \<Rightarrow> io \<Rightarrow> ((error + string option) \<times> io) option"
where
  "loopListVersionIDsPagination c secretID stage nextToken w =
     (case conn_ListSecretVersionIds c \<lparr>lvi_NextToken = nextToken, lvi_SecretId = secretID\<rparr> w of
        (Inl err, w') \<Rightarrow>
          Some (Inl (Errorf ''error updating Secrets Manager Secret %q Version Stage %q: %s''
                       [secretID, stage] (Some err)), w')
      | (Inr output, w') \<Rightarrow>
          (case find_AWSCURRENT (Versions output) of
             Some version \<Rightarrow> Some (Inr (VersionId version), w')
           | None \<Rightarrow>
               (case NextToken output of
                  None \<Rightarrow> Some (Inr None, w')
                | Some token \<Rightarrow> loopListVersionIDsPagination c secretID stage (Some token) w')))"

declare loopListVersionIDsPagination.simps [code]

text \<open>
  Lines 204 to 255: the branch of the addition loop for the stage \<^verbatim>\<open>AWSCURRENT\<close>.
  \<open>described\<close> says that \<^verbatim>\<open>describedSecret\<close> is not nil. The result is the new value of
  that flag and the request with its \<^verbatim>\<open>RemoveFromVersionId\<close> filled in. The log call of
  line 247 dereferences \<^verbatim>\<open>awsCurrentStageVersionID\<close>: a nil holder is a panic.
\<close>

definition locate_AWSCURRENT ::
  "conn \<Rightarrow> string \<Rightarrow> string \<Rightarrow> string \<Rightarrow> bool \<Rightarrow> UpdateSecretVersionStageInput \<Rightarrow> io
     \<Rightarrow> ((fault + bool \<times> UpdateSecretVersionStageInput) \<times> io) option" where
  "locate_AWSCURRENT c secretID versionID stage described input w =
     (let w1 = logPrintf
                 ''[DEBUG] Going to set AWSCURRENT staging label for secret %q version %q''
                 [secretID, versionID] w
      in
      if described then Some (Inr (described, input), w1)
      else
        (case conn_DescribeSecret c secretID w1 of
           (Some err, w2) \<Rightarrow>
             Some (Inl (Err (Errorf
                     ''error updating Secrets Manager Secret %q Version Stage %q: %s''
                     [secretID, stage] (Some err))), w2)
         | (None, w2) \<Rightarrow>
             (case loopListVersionIDsPagination c secretID stage None w2 of
                None \<Rightarrow> None
              | Some (Inl e, w3) \<Rightarrow> Some (Inl (Err e), w3)
              | Some (Inr awsCurrentStageVersionID, w3) \<Rightarrow>
                  (case awsCurrentStageVersionID of
                     None \<Rightarrow> Some (Inl Panic, w3)
                   | Some holder \<Rightarrow>
                       Some (Inr (True,
                                  input\<lparr>RemoveFromVersionId := awsCurrentStageVersionID\<rparr>),
                             logPrintf
                               ''[DEBUG] Going to move AWSCURRENT staging label for secret %q from version: %q to version %q''
                               [secretID, holder, versionID] w3)))))"

text \<open>
  Lines 197 to 265: one iteration of the addition loop. It returns the new value of the
  flag and the new value of \<^verbatim>\<open>awsPreviousVersionID\<close>, which line 264 sets to the
  \<^verbatim>\<open>RemoveFromVersionId\<close> of the request, whatever the stage is.
\<close>

definition add_stage ::
  "conn \<Rightarrow> string \<Rightarrow> string \<Rightarrow> string \<Rightarrow> bool \<Rightarrow> io
     \<Rightarrow> ((fault + bool \<times> string option) \<times> io) option" where
  "add_stage c secretID versionID stage described w =
     (let input0 = \<lparr>MoveToVersionId = Some versionID, RemoveFromVersionId = None,
                     SecretId = secretID, VersionStage = stage\<rparr>
      in
      case (if stage = AWSCURRENT
            then locate_AWSCURRENT c secretID versionID stage described input0 w
            else Some (Inr (described, input0), w)) of
        None \<Rightarrow> None
      | Some (Inl f, w1) \<Rightarrow> Some (Inl f, w1)
      | Some (Inr (described1, input), w1) \<Rightarrow>
          (case conn_UpdateSecretVersionStage c input
                  (logPrintfInput ''[DEBUG] Updating Secrets Manager Secret Version Stage: %s''
                     input w1) of
             (Some err, w2) \<Rightarrow>
               Some (Inl (Err (Errorf
                       ''error updating Secrets Manager Secret %q Version Stage %q: %s''
                       [secretID, stage] (Some err))), w2)
           | (None, w2) \<Rightarrow> Some (Inr (described1, RemoveFromVersionId input), w2)))"

text \<open>The addition loop over \<^verbatim>\<open>stagesToAdd\<close>; it returns the final \<^verbatim>\<open>awsPreviousVersionID\<close>.\<close>

fun add_stages ::
  "conn \<Rightarrow> string \<Rightarrow> string \<Rightarrow> string list \<Rightarrow> bool \<Rightarrow> string option \<Rightarrow> io
     \<Rightarrow> ((fault + string option) \<times> io) option" where
  "add_stages c secretID versionID [] described awsPreviousVersionID w =
     Some (Inr awsPreviousVersionID, w)"
| "add_stages c secretID versionID (stage # rest) described awsPreviousVersionID w =
     (case add_stage c secretID versionID stage described w of
        None \<Rightarrow> None
      | Some (Inl f, w') \<Rightarrow> Some (Inl f, w')
      | Some (Inr (described', removeFrom), w') \<Rightarrow>
          add_stages c secretID versionID rest described' removeFrom w')"

text \<open>Lines 267 to 283: the removal loop over \<^verbatim>\<open>stagesToRemove\<close>.\<close>

fun remove_stages ::
  "conn \<Rightarrow> string \<Rightarrow> string \<Rightarrow> string option \<Rightarrow> string list \<Rightarrow> io \<Rightarrow> error option \<times> io" where
  "remove_stages c secretID versionID awsPreviousVersionID [] w = (None, w)"
| "remove_stages c secretID versionID awsPreviousVersionID (stage # rest) w =
     (if stage = AWSCURRENT
      then remove_stages c secretID versionID awsPreviousVersionID rest
             (logPrintf
                ''[INFO] Skipping removal of AWSCURRENT staging label for secret %q version %q''
                [secretID, versionID] w)
      else
        (let input = \<lparr>MoveToVersionId = None, RemoveFromVersionId = awsPreviousVersionID,
                       SecretId = secretID, VersionStage = stage\<rparr>
         in
         case conn_UpdateSecretVersionStage c input
                (logPrintfInput ''[DEBUG] Updating Secrets Manager Secret Version Stage: %s''
                   input w) of
           (Some err, w') \<Rightarrow>
             (Some (Errorf ''error updating Secrets Manager Secret %q Version Stage %q: %s''
                      [secretID, stage] (Some err)), w')
         | (None, w') \<Rightarrow> remove_stages c secretID versionID awsPreviousVersionID rest w'))"

text \<open>Lines 188 to 192: the plan, the two differences of the old and the new set.\<close>

definition stagesToAdd :: "ResourceData \<Rightarrow> string list" where
  "stagesToAdd d = Difference (version_stages d) (version_stages_old d)"

definition stagesToRemove :: "ResourceData \<Rightarrow> string list" where
  "stagesToRemove d = Difference (version_stages_old d) (version_stages d)"

text \<open>\<^verbatim>\<open>resourceAwsSecretsManagerSecretVersionUpdate\<close>.\<close>

definition resourceAwsSecretsManagerSecretVersionUpdate ::
  "(string \<Rightarrow> string) \<Rightarrow> conn \<Rightarrow> nat \<Rightarrow> ResourceData \<Rightarrow> io
     \<Rightarrow> (fault option \<times> ResourceData \<times> io) option" where
  "resourceAwsSecretsManagerSecretVersionUpdate base64Encode c budget d w =
     (case decodeSecretsManagerSecretVersionID (Id d) of
        Inl e \<Rightarrow> Some (Some (Err e), d, w)
      | Inr (secretID, versionID) \<Rightarrow>
          (case add_stages c secretID versionID (stagesToAdd d) False (Some versionID) w of
             None \<Rightarrow> None
           | Some (Inl f, w1) \<Rightarrow> Some (Some f, d, w1)
           | Some (Inr awsPreviousVersionID, w1) \<Rightarrow>
               (case remove_stages c secretID versionID awsPreviousVersionID
                       (stagesToRemove d) w1 of
                  (Some e, w2) \<Rightarrow> Some (Some (Err e), d, w2)
                | (None, w2) \<Rightarrow>
                    Some (resourceAwsSecretsManagerSecretVersionRead base64Encode c budget d w2))))"

section \<open>Delete\<close>

text \<open>Lines 297 to 319: the loop over the stages that the version holds.\<close>

fun delete_stages ::
  "conn \<Rightarrow> string \<Rightarrow> string \<Rightarrow> string list \<Rightarrow> io \<Rightarrow> error option \<times> io" where
  "delete_stages c secretID versionID [] w = (None, w)"
| "delete_stages c secretID versionID (stage # rest) w =
     (if stage = AWSCURRENT
      then delete_stages c secretID versionID rest
             (logPrintf
                ''[WARN] Cannot remove AWSCURRENT staging label, which may leave the secret %q version %q active''
                [secretID, versionID] w)
      else
        (let input = \<lparr>MoveToVersionId = None, RemoveFromVersionId = Some versionID,
                       SecretId = secretID, VersionStage = stage\<rparr>
         in
         case conn_UpdateSecretVersionStage c input
                (logPrintfInput ''[DEBUG] Updating Secrets Manager Secret Version Stage: %s''
                   input w) of
           (Some err, w') \<Rightarrow>
             (if isAWSErr err ErrCodeResourceNotFoundException [] then (None, w')
              else if isAWSErr err ErrCodeInvalidRequestException secretDeletedMessage
              then (None, w')
              else (Some (Errorf
                      ''error updating Secrets Manager Secret %q Version Stage %q: %s''
                      [secretID, stage] (Some err)), w'))
         | (None, w') \<Rightarrow> delete_stages c secretID versionID rest w'))"

text \<open>
  \<^verbatim>\<open>resourceAwsSecretsManagerSecretVersionDelete\<close>. \<^verbatim>\<open>d.GetOk\<close> reports a set that is not
  empty.
\<close>

definition resourceAwsSecretsManagerSecretVersionDelete ::
  "conn \<Rightarrow> ResourceData \<Rightarrow> io \<Rightarrow> error option \<times> io" where
  "resourceAwsSecretsManagerSecretVersionDelete c d w =
     (case decodeSecretsManagerSecretVersionID (Id d) of
        Inl e \<Rightarrow> (Some e, w)
      | Inr (secretID, versionID) \<Rightarrow>
          (if version_stages d \<noteq> []
           then delete_stages c secretID versionID (version_stages d) w
           else (None, w)))"

section \<open>Tag updates of the ivschat service\<close>

text \<open>
  Modelled from the spec: the tag sets \<^verbatim>\<open>tftags.KeyValueTags\<close> with \<^verbatim>\<open>Removed\<close> and
  \<^verbatim>\<open>Updated\<close> (internal/tags, not under src/), section 6: the update computes the
  removed tags and the added or changed tags. A tag set is a map from keys to values;
  \<open>Removed\<close> holds the old tags whose key is not a new key, \<open>Updated\<close> the new tags that
  are not old tags with the same value.
\<close>

type_synonym KeyValueTags = "string \<rightharpoonup> string"

definition Removed :: "KeyValueTags \<Rightarrow> KeyValueTags \<Rightarrow> KeyValueTags" where
  "Removed tags newTags = (\<lambda>k. if newTags k = None then tags k else None)"

definition Updated :: "KeyValueTags \<Rightarrow> KeyValueTags \<Rightarrow> KeyValueTags" where
  "Updated tags newTags =
     (\<lambda>k. case newTags k of
            None \<Rightarrow> None
          | Some newV \<Rightarrow> if tags k = Some newV then None else Some newV)"

text \<open>
  The requests of the ivschat client, the record of its calls, and the client itself,
  as for the Secrets Manager client. The keys of a tag set come in no fixed order:
  \<open>TagKeys\<close> is their set.
\<close>

record UntagResourceInput =
  untag_ResourceArn :: string
  TagKeys :: "string set"

record TagResourceInput =
  tag_ResourceArn :: string
  Tags :: KeyValueTags

datatype tag_event =
    EvUntagResource UntagResourceInput "error option"
  | EvTagResource TagResourceInput "error option"

record ivschat_Client =
  UntagResource :: "tag_event list \<Rightarrow> UntagResourceInput \<Rightarrow> error option"
  TagResource :: "tag_event list \<Rightarrow> TagResourceInput \<Rightarrow> error option"

text \<open>
  \<^verbatim>\<open>UpdateTags\<close> of tags_gen.go. \<open>oldTags\<close> and \<open>newTags\<close> are the tag sets that
  \<^verbatim>\<open>tftags.New\<close> makes of the two arguments; \<^verbatim>\<open>IgnoreAWS\<close> (internal/tags, not under
  src/) is a parameter. \<open>tr\<close> is the record of the calls made so far.
\<close>

definition UpdateTags ::
  "(KeyValueTags \<Rightarrow> KeyValueTags) \<Rightarrow> ivschat_Client \<Rightarrow> string \<Rightarrow> KeyValueTags \<Rightarrow> KeyValueTags
     \<Rightarrow> tag_event list \<Rightarrow> error option \<times> tag_event list" where
  "UpdateTags IgnoreAWS conn identifier oldTags newTags tr =
     (let removedTags = Removed oldTags newTags;
          (err1, tr1) =
            (if removedTags \<noteq> Map.empty
             then (let input = \<lparr>untag_ResourceArn = identifier,
                                  TagKeys = dom (IgnoreAWS removedTags)\<rparr>;
                       err = UntagResource conn tr input
                   in (err, tr @ [EvUntagResource input err]))
             else (None, tr))
      in
      case err1 of
        Some err \<Rightarrow> (Some (Errorf ''untagging resource (%s): %w'' [identifier] (Some err)), tr1)
      | None \<Rightarrow>
          (let updatedTags = Updated oldTags newTags in
           if updatedTags \<noteq> Map.empty
           then (let input = \<lparr>tag_ResourceArn = identifier, Tags = IgnoreAWS updatedTags\<rparr>;
                     err = TagResource conn tr1 input;
                     tr2 = tr1 @ [EvTagResource input err]
                 in case err of
                      Some e \<Rightarrow>
                        (Some (Errorf ''tagging resource (%s): %w'' [identifier] (Some e)), tr2)
                    | None \<Rightarrow> (None, tr2))
           else (None, tr1)))"

section \<open>Notions used in the properties\<close>

text \<open>
  A bare removal of \<^verbatim>\<open>AWSCURRENT\<close> is a stage update for that label that names no version
  to move it to. \<open>extends_calls P w w'\<close> says that \<open>w'\<close> has the calls of \<open>w\<close> followed
  by calls that all satisfy \<open>P\<close>. An absence error is one of the two errors that the
  deletion path treats as "already deleted".
\<close>

definition bare_removal_of_AWSCURRENT :: "event \<Rightarrow> bool" where
  "bare_removal_of_AWSCURRENT ev =
     (case ev of
        EvUpdateSecretVersionStage input r \<Rightarrow>
          VersionStage input = AWSCURRENT \<and> MoveToVersionId input = None
      | _ \<Rightarrow> False)"

definition extends_calls :: "(event \<Rightarrow> bool) \<Rightarrow> io \<Rightarrow> io \<Rightarrow> bool" where
  "extends_calls P w w' = (\<exists>evs. calls w' = calls w @ evs \<and> list_all P evs)"

definition absence_error :: "error \<Rightarrow> bool" where
  "absence_error e =
     (isAWSErr e ErrCodeResourceNotFoundException []
      \<or> isAWSErr e ErrCodeInvalidRequestException secretDeletedMessage)"

section \<open>Example stores and resources\<close>

text \<open>
  Concrete remote stores and resources, on which the operations are evaluated.
  \<open>two_page_store\<close> lists two pages of versions, with \<^verbatim>\<open>AWSCURRENT\<close> on the second
  version of the first page. \<open>store_without_AWSCURRENT\<close> lists one page on which no version
  carries the label. In \<open>deleted_store\<close> the secret is gone: reads and stage updates
  fail with the not-found error.
\<close>

definition example_output :: GetSecretValueOutput where
  "example_output =
     \<lparr>gvo_ARN = Some ''arn:secret'', gvo_SecretBinary = [], gvo_SecretString = Some ''value'',
      gvo_VersionId = Some ''v2'', gvo_VersionStages = [''OTHER'']\<rparr>"

definition first_page :: ListSecretVersionIdsOutput where
  "first_page =
     \<lparr>Versions = [\<lparr>VersionId = Some ''v0'', VersionStages = [Some ''AWSPREVIOUS'']\<rparr>,
                  \<lparr>VersionId = Some ''v1'', VersionStages = [None, Some ''AWSCURRENT'']\<rparr>],
      NextToken = Some ''page2''\<rparr>"

definition two_page_store :: conn where
  "two_page_store =
     \<lparr>DescribeSecret = (\<lambda>h secretID. None),
      ListSecretVersionIds = (\<lambda>h input.
        if lvi_NextToken input = None then Inr first_page
        else Inr \<lparr>Versions = [\<lparr>VersionId = Some ''v2'', VersionStages = []\<rparr>],
                  NextToken = None\<rparr>),
      UpdateSecretVersionStage = (\<lambda>h input. None),
      GetSecretValue = (\<lambda>h input. (Some example_output, None))\<rparr>"

definition store_without_AWSCURRENT :: conn where
  "store_without_AWSCURRENT =
     \<lparr>DescribeSecret = (\<lambda>h secretID. None),
      ListSecretVersionIds = (\<lambda>h input.
        Inr \<lparr>Versions = [\<lparr>VersionId = Some ''v1'', VersionStages = [Some ''AWSPREVIOUS'']\<rparr>],
             NextToken = None\<rparr>),
      UpdateSecretVersionStage = (\<lambda>h input. None),
      GetSecretValue = (\<lambda>h input. (Some example_output, None))\<rparr>"

definition deleted_store :: conn where
  "deleted_store =
     \<lparr>DescribeSecret = (\<lambda>h secretID. Some (AWSError ''ResourceNotFoundException'' ''gone'')),
      ListSecretVersionIds = (\<lambda>h input. Inl (AWSError ''ResourceNotFoundException'' ''gone'')),
      UpdateSecretVersionStage =
        (\<lambda>h input. Some (AWSError ''ResourceNotFoundException'' ''gone'')),
      GetSecretValue = (\<lambda>h input. (None, Some (AWSError ''ResourceNotFoundException'' ''gone'')))\<rparr>"

definition example_data :: "string list \<Rightarrow> string list \<Rightarrow> ResourceData" where
  "example_data old new =
     \<lparr>Id = ''sec|v2'', IsNewResource = False, version_stages_old = old, version_stages = new,
      secret_id = ''sec'', secret_string = ''value'', secret_binary = [], version_id = ''v2'',
      arn = ''arn:secret''\<rparr>"

definition no_io :: io where
  "no_io = \<lparr>calls = [], logs = []\<rparr>"

section \<open>Properties of the resource identifier\<close>

lemma strings_Split_not_Nil: "strings_Split s sep \<noteq> []"
  by (induction s) (auto split: list.splits)

lemma length_strings_Split: "length (strings_Split s sep) = Suc (count_list s sep)"
proof (induction s)
  case Nil
  show ?case by simp
next
  case (Cons c cs)
  then show ?case
    using strings_Split_not_Nil [of cs sep]
    by (cases "strings_Split cs sep") auto
qed

lemma strings_Split_no_sep: "sep \<notin> set s \<Longrightarrow> strings_Split s sep = [s]"
  by (induction s) auto

lemma strings_Split_append:
  "sep \<notin> set a \<Longrightarrow> strings_Split (a @ sep # b) sep = a # strings_Split b sep"
  by (induction a) auto

lemma count_list_one_split:
  "count_list s sep = 1 \<Longrightarrow> \<exists>a b. s = a @ sep # b \<and> sep \<notin> set a \<and> sep \<notin> set b"
proof (induction s)
  case Nil
  then show ?case by simp
next
  case (Cons c cs)
  show ?case
  proof (cases "c = sep")
    case True
    with Cons.prems have "count_list cs sep = 0" by simp
    then have "sep \<notin> set cs" by (simp add: count_list_0_iff)
    with True have "c # cs = [] @ sep # cs \<and> sep \<notin> set [] \<and> sep \<notin> set cs" by simp
    then show ?thesis by blast
  next
    case False
    with Cons.prems have "count_list cs sep = 1" by simp
    with Cons.IH obtain a b where ab: "cs = a @ sep # b" "sep \<notin> set a" "sep \<notin> set b"
      by blast
    with False have "c # cs = (c # a) @ sep # b \<and> sep \<notin> set (c # a) \<and> sep \<notin> set b"
      by auto
    then show ?thesis by blast
  qed
qed

lemma decode_two_parts:
  assumes "CHR ''|'' \<notin> set a" and "CHR ''|'' \<notin> set b"
  shows "decodeSecretsManagerSecretVersionID (a @ CHR ''|'' # b) = Inr (a, b)"
  using assms
  by (simp add: decodeSecretsManagerSecretVersionID_def strings_Split_append
      strings_Split_no_sep)

lemma decode_error_iff:
  "isl (decodeSecretsManagerSecretVersionID s) \<longleftrightarrow> count_list s (CHR ''|'') \<noteq> 1"
  by (simp add: decodeSecretsManagerSecretVersionID_def Let_def length_strings_Split)

text \<open>
  C3 (as the code has it): decoding fails exactly when the string does not split on \<open>|\<close>
  into two parts, that is when it is not of the form \<open>a|b\<close> with no \<open>|\<close> in \<open>a\<close> or
  \<open>b\<close>. The two parts may be empty: whenever the string has this form, the parts are
  returned as they are, with no error.
\<close>

theorem decode_fails_iff_not_two_parts:
  "(\<exists>e. decodeSecretsManagerSecretVersionID s = Inl e) =
     (\<nexists>a b. s = a @ ''|'' @ b \<and> CHR ''|'' \<notin> set a \<and> CHR ''|'' \<notin> set b)"
proof
  assume "\<exists>e. decodeSecretsManagerSecretVersionID s = Inl e"
  then obtain e where e: "decodeSecretsManagerSecretVersionID s = Inl e" ..
  show "\<nexists>a b. s = a @ ''|'' @ b \<and> CHR ''|'' \<notin> set a \<and> CHR ''|'' \<notin> set b"
  proof
    assume "\<exists>a b. s = a @ ''|'' @ b \<and> CHR ''|'' \<notin> set a \<and> CHR ''|'' \<notin> set b"
    then obtain a b where "s = a @ CHR ''|'' # b" "CHR ''|'' \<notin> set a" "CHR ''|'' \<notin> set b"
      by auto
    then have "decodeSecretsManagerSecretVersionID s = Inr (a, b)"
      by (simp add: decode_two_parts)
    with e show False by simp
  qed
next
  assume no: "\<nexists>a b. s = a @ ''|'' @ b \<and> CHR ''|'' \<notin> set a \<and> CHR ''|'' \<notin> set b"
  have "count_list s (CHR ''|'') \<noteq> 1"
  proof
    assume "count_list s (CHR ''|'') = 1"
    from count_list_one_split [OF this] no show False by auto
  qed
  then have "isl (decodeSecretsManagerSecretVersionID s)"
    by (simp add: decode_error_iff)
  then show "\<exists>e. decodeSecretsManagerSecretVersionID s = Inl e"
    by (cases "decodeSecretsManagerSecretVersionID s") auto
qed

theorem decode_fails_iff_not_two_parts_witness:
  "(\<exists>e. decodeSecretsManagerSecretVersionID ''a|b|c'' = Inl e)
   \<and> decodeSecretsManagerSecretVersionID ''|'' = Inr ('''', '''')"
proof -
  have "\<nexists>a b. ''a|b|c'' = a @ ''|'' @ b \<and> CHR ''|'' \<notin> set a \<and> CHR ''|'' \<notin> set b"
  proof
    assume "\<exists>a b. ''a|b|c'' = a @ ''|'' @ b \<and> CHR ''|'' \<notin> set a \<and> CHR ''|'' \<notin> set b"
    then obtain a b where ab: "''a|b|c'' = a @ CHR ''|'' # b" "CHR ''|'' \<notin> set a"
      "CHR ''|'' \<notin> set b" by auto
    from ab(1) have "count_list ''a|b|c'' (CHR ''|'') = count_list (a @ CHR ''|'' # b) (CHR ''|'')"
      by simp
    also from ab(2,3) have "\<dots> = 1" by (simp add: count_list_0_iff)
    finally show False by simp
  qed
  with decode_fails_iff_not_two_parts [of "''a|b|c''"]
  have "\<exists>e. decodeSecretsManagerSecretVersionID ''a|b|c'' = Inl e" by blast
  moreover have "decodeSecretsManagerSecretVersionID ''|'' = Inr ('''', '''')"
    by (simp add: decodeSecretsManagerSecretVersionID_def)
  ultimately show ?thesis by blast
qed

text \<open>
  C3 (as stated) fails: an identifier whose version part is empty is decoded without an
  error.
\<close>

theorem decode_accepts_empty_part:
  "decodeSecretsManagerSecretVersionID ''secret|'' = Inr (''secret'', '''')"
  by (simp add: decodeSecretsManagerSecretVersionID_def)

text \<open>
  C7: for identifiers without \<open>|\<close>, decoding the encoded pair gives the pair back with no
  error; and decoding a string that does not contain exactly one \<open>|\<close> gives an error.
\<close>

theorem decode_encode_roundtrip:
  "(CHR ''|'' \<notin> set secretID \<and> CHR ''|'' \<notin> set versionID \<longrightarrow>
      decodeSecretsManagerSecretVersionID
        (encodeSecretsManagerSecretVersionID secretID versionID) = Inr (secretID, versionID))
   \<and> (count_list s (CHR ''|'') \<noteq> 1 \<longrightarrow> (\<exists>e. decodeSecretsManagerSecretVersionID s = Inl e))"
proof (intro conjI impI)
  assume "CHR ''|'' \<notin> set secretID \<and> CHR ''|'' \<notin> set versionID"
  then show "decodeSecretsManagerSecretVersionID
        (encodeSecretsManagerSecretVersionID secretID versionID) = Inr (secretID, versionID)"
    using decode_two_parts [of secretID versionID]
    by (simp add: encodeSecretsManagerSecretVersionID_def)
next
  assume "count_list s (CHR ''|'') \<noteq> 1"
  then have "isl (decodeSecretsManagerSecretVersionID s)"
    by (simp add: decode_error_iff)
  then show "\<exists>e. decodeSecretsManagerSecretVersionID s = Inl e"
    by (cases "decodeSecretsManagerSecretVersionID s") auto
qed

theorem decode_encode_roundtrip_witness:
  "decodeSecretsManagerSecretVersionID
     (encodeSecretsManagerSecretVersionID ''my-secret'' ''v1'') = Inr (''my-secret'', ''v1'')
   \<and> (\<exists>e. decodeSecretsManagerSecretVersionID ''no-separator'' = Inl e)"
  using decode_encode_roundtrip [of "''my-secret''" "''v1''" "''no-separator''"]
  by simp

section \<open>Evaluation of the operations\<close>

text \<open>The equations of the model, with which an operation is evaluated on a concrete store.\<close>

lemmas eval_defs =
  resourceAwsSecretsManagerSecretVersionUpdate_def
  resourceAwsSecretsManagerSecretVersionRead_def
  resourceAwsSecretsManagerSecretVersionDelete_def
  Read_attempt_def add_stage_def locate_AWSCURRENT_def
  stagesToAdd_def stagesToRemove_def Difference_def
  decodeSecretsManagerSecretVersionID_def
  conn_DescribeSecret_def conn_ListSecretVersionIds_def conn_UpdateSecretVersionStage_def
  conn_GetSecretValue_def logPrintf_def logPrintfInput_def
  ErrCodeEquals_def ErrMessageContains_def isAWSErr_def TimedOut_def
  RetryableError_def NonRetryableError_def StringValue_def
  AWSCURRENT_def ErrCodeResourceNotFoundException_def ErrCodeInvalidRequestException_def
  secretDeletedMessage_def strings_HasPrefix_def Let_def
  loopListVersionIDsPagination.simps

section \<open>The plan\<close>

text \<open>
  C5: the plan is the pair of set differences, \<open>toAdd = desired - observed\<close> and
  \<open>toRemove = observed - desired\<close>; the two are disjoint, removing \<open>toRemove\<close> from
  the observed set and adding \<open>toAdd\<close> gives the desired set, and an empty desired
  (observed) set gives an empty \<open>toAdd\<close> (\<open>toRemove\<close>).
\<close>

theorem plan_is_set_difference:
  "set (stagesToAdd d) = set (version_stages d) - set (version_stages_old d)
   \<and> set (stagesToRemove d) = set (version_stages_old d) - set (version_stages d)
   \<and> set (stagesToAdd d) \<inter> set (stagesToRemove d) = {}
   \<and> (set (version_stages_old d) - set (stagesToRemove d)) \<union> set (stagesToAdd d)
       = set (version_stages d)
   \<and> stagesToAdd (d\<lparr>version_stages := []\<rparr>) = []
   \<and> stagesToRemove (d\<lparr>version_stages_old := []\<rparr>) = []"
  by (auto simp: stagesToAdd_def stagesToRemove_def Difference_def)

theorem plan_is_set_difference_witness:
  "stagesToAdd (example_data [''A'', ''B''] [''B'', ''C'']) = [''C'']
   \<and> stagesToRemove (example_data [''A'', ''B''] [''B'', ''C'']) = [''A'']
   \<and> set (stagesToAdd (example_data [''A'', ''B''] [''B'', ''C'']))
       \<inter> set (stagesToRemove (example_data [''A'', ''B''] [''B'', ''C''])) = {}"
  using plan_is_set_difference [of "example_data [''A'', ''B''] [''B'', ''C'']"]
  by (simp add: stagesToAdd_def stagesToRemove_def Difference_def example_data_def)

section \<open>The locator of the current holder\<close>

lemma has_AWSCURRENT_iff: "has_AWSCURRENT stages \<longleftrightarrow> Some AWSCURRENT \<in> set stages"
  by (induction stages) auto

lemma find_AWSCURRENT_first:
  "\<forall>v \<in> set before. Some AWSCURRENT \<notin> set (VersionStages v) \<Longrightarrow>
   Some AWSCURRENT \<in> set (VersionStages version) \<Longrightarrow>
   find_AWSCURRENT (before @ version # rest) = Some version"
  by (induction before) (auto simp: has_AWSCURRENT_iff)

lemma find_AWSCURRENT_None:
  "find_AWSCURRENT versions = None \<longleftrightarrow>
     (\<forall>v \<in> set versions. Some AWSCURRENT \<notin> set (VersionStages v))"
  by (induction versions) (auto simp: has_AWSCURRENT_iff)

text \<open>
  C6: when a page of the listing has a version that carries \<^verbatim>\<open>AWSCURRENT\<close>, the locator
  ends with that request: it makes exactly one list request from there, whatever
  continuation token the page has, and returns the ID of the first such version of the
  page. With \<open>nextToken = None\<close> this is the first page of the history.
\<close>

theorem locator_stops_at_first_AWSCURRENT:
  assumes "ListSecretVersionIds c (calls w)
             \<lparr>lvi_NextToken = nextToken, lvi_SecretId = secretID\<rparr> = Inr page"
    and "Versions page = before @ version # rest"
    and "\<forall>v \<in> set before. Some AWSCURRENT \<notin> set (VersionStages v)"
    and "Some AWSCURRENT \<in> set (VersionStages version)"
  shows "loopListVersionIDsPagination c secretID stage nextToken w =
           Some (Inr (VersionId version),
                 w\<lparr>calls := calls w @
                    [EvListSecretVersionIds
                       \<lparr>lvi_NextToken = nextToken, lvi_SecretId = secretID\<rparr> (Inr page)]\<rparr>)"
  using assms find_AWSCURRENT_first [of before version rest]
  by (subst loopListVersionIDsPagination.simps)
     (simp add: conn_ListSecretVersionIds_def Let_def)

theorem locator_stops_at_first_AWSCURRENT_witness:
  "NextToken first_page = Some ''page2''
   \<and> loopListVersionIDsPagination two_page_store ''sec'' ''AWSCURRENT'' None no_io =
       Some (Inr (Some ''v1''),
             \<lparr>calls = [EvListSecretVersionIds \<lparr>lvi_NextToken = None, lvi_SecretId = ''sec''\<rparr>
                         (Inr first_page)],
              logs = []\<rparr>)"
  using locator_stops_at_first_AWSCURRENT
    [where c = two_page_store and w = no_io and nextToken = None and secretID = "''sec''"
       and page = first_page
       and before = "[\<lparr>VersionId = Some ''v0'', VersionStages = [Some ''AWSPREVIOUS'']\<rparr>]"
       and version = "\<lparr>VersionId = Some ''v1'', VersionStages = [None, Some ''AWSCURRENT'']\<rparr>"
       and rest = "[]" and stage = "''AWSCURRENT''"]
  by (simp add: two_page_store_def first_page_def no_io_def AWSCURRENT_def)

section \<open>Read of a resource that is gone\<close>

text \<open>
  C8: in a read of a resource that is not new, when the remote read returns the not-found
  error or the secret-was-deleted error, Read makes that one call and no other, clears
  the resource ID, logs the warning and returns no error, whatever the retry window is.
\<close>

theorem Read_preexisting_absent:
  assumes "\<not> IsNewResource d"
    and "decodeSecretsManagerSecretVersionID (Id d) = Inr (secretID, versionID)"
    and "GetSecretValue c (calls w) \<lparr>gvi_SecretId = secretID, gvi_VersionId = versionID\<rparr>
           = (out, Some e)"
    and "ErrCodeEquals (Some e) ErrCodeResourceNotFoundException
         \<or> ErrMessageContains (Some e) ErrCodeInvalidRequestException secretDeletedMessage"
  shows "resourceAwsSecretsManagerSecretVersionRead base64Encode c budget d w =
           (None, d\<lparr>Id := []\<rparr>,
            w\<lparr>calls := calls w @
                 [EvGetSecretValue \<lparr>gvi_SecretId = secretID, gvi_VersionId = versionID\<rparr>
                    (out, Some e)],
              logs := logs w @
                 [Printf ''[WARN] Secrets Manager Secret Version (%s) not found, removing from state''
                    [Id d]]\<rparr>)"
proof -
  let ?input = "\<lparr>gvi_SecretId = secretID, gvi_VersionId = versionID\<rparr>"
  let ?w1 = "w\<lparr>calls := calls w @ [EvGetSecretValue ?input (out, Some e)]\<rparr>"
  from assms(4) obtain code msg where e: "e = AWSError code msg"
    by (cases e) (auto simp: ErrCodeEquals_def ErrMessageContains_def)
  have att: "Read_attempt c d ?input (None, w) = (Some (RetryError e False), out, ?w1)"
    using assms(1,3)
    by (simp add: Read_attempt_def conn_GetSecretValue_def Let_def NonRetryableError_def)
  have ret: "Retry budget (Read_attempt c d ?input) (None, w) = (Some e, out, ?w1)"
    by (simp add: att)
  have nt: "\<not> TimedOut (Some e)" by (simp add: TimedOut_def e)
  show ?thesis
    using assms(1,2,4) nt
    by (auto simp: resourceAwsSecretsManagerSecretVersionRead_def Let_def ret logPrintf_def
        simp del: Retry.simps)
qed

theorem Read_preexisting_absent_witness:
  "\<not> IsNewResource (example_data [] [])
   \<and> decodeSecretsManagerSecretVersionID (Id (example_data [] [])) = Inr (''sec'', ''v2'')
   \<and> ErrCodeEquals (Some (AWSError ''ResourceNotFoundException'' ''gone''))
        ErrCodeResourceNotFoundException
   \<and> resourceAwsSecretsManagerSecretVersionRead (\<lambda>b. b) deleted_store 3
       (example_data [] []) no_io =
       (None, (example_data [] [])\<lparr>Id := []\<rparr>,
        \<lparr>calls = [EvGetSecretValue \<lparr>gvi_SecretId = ''sec'', gvi_VersionId = ''v2''\<rparr>
                    (None, Some (AWSError ''ResourceNotFoundException'' ''gone''))],
         logs = [Printf
                   ''[WARN] Secrets Manager Secret Version (%s) not found, removing from state''
                   [''sec|v2'']]\<rparr>)"
  using Read_preexisting_absent
    [where d = "example_data [] []" and secretID = "''sec''" and versionID = "''v2''"
       and c = deleted_store and w = no_io and out = None
       and e = "AWSError ''ResourceNotFoundException'' ''gone''"
       and base64Encode = "\<lambda>b. b" and budget = 3]
  by (simp add: example_data_def deleted_store_def no_io_def
      decodeSecretsManagerSecretVersionID_def ErrCodeEquals_def
      ErrCodeResourceNotFoundException_def)

section \<open>The calls of Update\<close>

lemma extends_calls_refl: "calls w' = calls w \<Longrightarrow> extends_calls P w w'"
  by (simp add: extends_calls_def)

lemma extends_calls_trans:
  "extends_calls P w w1 \<Longrightarrow> extends_calls P w1 w2 \<Longrightarrow> extends_calls P w w2"
  by (auto simp: extends_calls_def)

lemma extends_calls_one:
  "calls w' = calls w @ [ev] \<Longrightarrow> P ev \<Longrightarrow> extends_calls P w w'"
  by (simp add: extends_calls_def)

lemma calls_logPrintf [simp]: "calls (logPrintf f args w) = calls w"
  by (simp add: logPrintf_def)

lemma calls_logPrintfInput [simp]: "calls (logPrintfInput f i w) = calls w"
  by (simp add: logPrintfInput_def)

lemma loop_extends:
  assumes "loopListVersionIDsPagination c secretID stage nextToken w = Some y"
  shows "extends_calls (\<lambda>ev. \<not> bare_removal_of_AWSCURRENT ev) w (snd y)"
  using assms
proof (induction c secretID stage nextToken w y
    rule: loopListVersionIDsPagination.raw_induct [rotated 1, consumes 1])
  case (1 loop c secretID stage nextToken w y)
  let ?input = "\<lparr>lvi_NextToken = nextToken, lvi_SecretId = secretID\<rparr>"
  obtain res w1 where l: "conn_ListSecretVersionIds c ?input w = (res, w1)"
    by (cases "conn_ListSecretVersionIds c ?input w")
  then have step: "extends_calls (\<lambda>ev. \<not> bare_removal_of_AWSCURRENT ev) w w1"
    by (auto simp: conn_ListSecretVersionIds_def Let_def bare_removal_of_AWSCURRENT_def
        intro!: extends_calls_one)
  show ?case
  proof (cases res)
    case (Inl err)
    with 1(2) l step show ?thesis by auto
  next
    case (Inr out)
    show ?thesis
    proof (cases "find_AWSCURRENT (Versions out)")
      case (Some version)
      with 1(2) l Inr step show ?thesis by auto
    next
      case None
      show ?thesis
      proof (cases "NextToken out")
        case None
        with 1(2) l Inr \<open>find_AWSCURRENT (Versions out) = None\<close> step show ?thesis by auto
      next
        case (Some token)
        have "loop c secretID stage (Some token) w1 = Some y"
          using l Inr \<open>find_AWSCURRENT (Versions out) = None\<close> Some 1(2) by simp
        from step 1(1) [OF this] show ?thesis by (rule extends_calls_trans)
      qed
    qed
  qed
qed

lemma locate_extends:
  "locate_AWSCURRENT c secretID versionID stage described input w = Some (r, w') \<Longrightarrow>
   extends_calls (\<lambda>ev. \<not> bare_removal_of_AWSCURRENT ev) w w'"
proof -
  assume a: "locate_AWSCURRENT c secretID versionID stage described input w = Some (r, w')"
  let ?P = "\<lambda>ev. \<not> bare_removal_of_AWSCURRENT ev"
  let ?w1 = "logPrintf
      ''[DEBUG] Going to set AWSCURRENT staging label for secret %q version %q''
      [secretID, versionID] w"
  show ?thesis
  proof (cases described)
    case True
    with a show ?thesis by (auto simp: locate_AWSCURRENT_def intro: extends_calls_refl)
  next
    case False
    obtain derr w2 where d: "conn_DescribeSecret c secretID ?w1 = (derr, w2)"
      by (cases "conn_DescribeSecret c secretID ?w1")
    then have s1: "extends_calls ?P w w2"
      by (auto simp: conn_DescribeSecret_def Let_def bare_removal_of_AWSCURRENT_def
          intro!: extends_calls_one)
    show ?thesis
    proof (cases derr)
      case (Some err)
      with a False d s1 show ?thesis by (auto simp: locate_AWSCURRENT_def)
    next
      case None
      with a False d obtain y where
        y: "loopListVersionIDsPagination c secretID stage None w2 = Some y"
        by (auto simp: locate_AWSCURRENT_def split: option.splits)
      from loop_extends [OF y] s1 have s2: "extends_calls ?P w (snd y)"
        by (blast intro: extends_calls_trans)
      from a False d None y have "calls w' = calls (snd y)"
        by (auto simp: locate_AWSCURRENT_def split: option.splits sum.splits prod.splits)
      with s2 show ?thesis by (auto simp: extends_calls_def)
    qed
  qed
qed

lemma add_stage_extends:
  "add_stage c secretID versionID stage described w = Some (r, w') \<Longrightarrow>
   extends_calls (\<lambda>ev. \<not> bare_removal_of_AWSCURRENT ev) w w'"
proof -
  assume a: "add_stage c secretID versionID stage described w = Some (r, w')"
  let ?P = "\<lambda>ev. \<not> bare_removal_of_AWSCURRENT ev"
  let ?input0 = "\<lparr>MoveToVersionId = Some versionID, RemoveFromVersionId = None,
                     SecretId = secretID, VersionStage = stage\<rparr>"
  let ?pre = "if stage = AWSCURRENT
            then locate_AWSCURRENT c secretID versionID stage described ?input0 w
            else Some (Inr (described, ?input0), w)"
  from a obtain r1 w1 where pre: "?pre = Some (r1, w1)"
    by (cases ?pre) (auto simp: add_stage_def)
  then have s1: "extends_calls ?P w w1"
    by (auto split: if_splits intro: locate_extends extends_calls_refl)
  show ?thesis
  proof (cases r1)
    case (Inl f)
    with a pre s1 show ?thesis by (auto simp: add_stage_def)
  next
    case (Inr p)
    obtain described1 input where p: "p = (described1, input)" by (cases p)
    have moveTo: "MoveToVersionId input = Some versionID"
      using pre Inr p
      by (auto simp: locate_AWSCURRENT_def Let_def split: if_splits option.splits sum.splits prod.splits)
    let ?w2 = "logPrintfInput ''[DEBUG] Updating Secrets Manager Secret Version Stage: %s''
                     input w1"
    obtain err w3 where u: "conn_UpdateSecretVersionStage c input ?w2 = (err, w3)"
      by (cases "conn_UpdateSecretVersionStage c input ?w2")
    with moveTo have "extends_calls ?P w1 w3"
      by (auto simp: conn_UpdateSecretVersionStage_def Let_def bare_removal_of_AWSCURRENT_def
          intro!: extends_calls_one)
    with s1 have "extends_calls ?P w w3" by (rule extends_calls_trans)
    moreover from a pre Inr p u have "w' = w3"
      by (auto simp: add_stage_def split: option.splits)
    ultimately show ?thesis by simp
  qed
qed

lemma add_stages_extends:
  "add_stages c secretID versionID stages described prev w = Some (r, w') \<Longrightarrow>
   extends_calls (\<lambda>ev. \<not> bare_removal_of_AWSCURRENT ev) w w'"
proof (induction stages arbitrary: described prev w)
  case Nil
  then show ?case by (auto intro: extends_calls_refl)
next
  case (Cons stage rest)
  from Cons.prems obtain r1 w1 where
    s: "add_stage c secretID versionID stage described w = Some (r1, w1)"
    by (cases "add_stage c secretID versionID stage described w") auto
  note s1 = add_stage_extends [OF s]
  show ?case
  proof (cases r1)
    case (Inl f)
    with Cons.prems s s1 show ?thesis by auto
  next
    case (Inr p)
    obtain described1 removeFrom where "p = (described1, removeFrom)" by (cases p)
    with Cons.prems s Inr
    have "add_stages c secretID versionID rest described1 removeFrom w1 = Some (r, w')"
      by simp
    from s1 Cons.IH [OF this] show ?thesis by (rule extends_calls_trans)
  qed
qed

lemma remove_stages_extends:
  "extends_calls (\<lambda>ev. \<not> bare_removal_of_AWSCURRENT ev) w
     (snd (remove_stages c secretID versionID prev stages w))"
proof (induction stages arbitrary: w)
  case Nil
  show ?case by (simp add: extends_calls_refl)
next
  case (Cons stage rest)
  let ?P = "\<lambda>ev. \<not> bare_removal_of_AWSCURRENT ev"
  show ?case
  proof (cases "stage = AWSCURRENT")
    case True
    let ?w1 = "logPrintf
                ''[INFO] Skipping removal of AWSCURRENT staging label for secret %q version %q''
                [secretID, versionID] w"
    have "extends_calls ?P w ?w1" by (simp add: extends_calls_refl)
    from this Cons.IH [of ?w1] have
      "extends_calls ?P w (snd (remove_stages c secretID versionID prev rest ?w1))"
      by (rule extends_calls_trans)
    with True show ?thesis by simp
  next
    case False
    let ?input = "\<lparr>MoveToVersionId = None, RemoveFromVersionId = prev,
                       SecretId = secretID, VersionStage = stage\<rparr>"
    let ?w1 = "logPrintfInput ''[DEBUG] Updating Secrets Manager Secret Version Stage: %s''
                   ?input w"
    obtain err w2 where u: "conn_UpdateSecretVersionStage c ?input ?w1 = (err, w2)"
      by (cases "conn_UpdateSecretVersionStage c ?input ?w1")
    with False have s1: "extends_calls ?P w w2"
      by (auto simp: conn_UpdateSecretVersionStage_def Let_def bare_removal_of_AWSCURRENT_def
          intro!: extends_calls_one)
    show ?thesis
    proof (cases err)
      case None
      from s1 Cons.IH [of w2]
      have "extends_calls ?P w (snd (remove_stages c secretID versionID prev rest w2))"
        by (rule extends_calls_trans)
      with False u None show ?thesis by simp
    next
      case (Some e)
      with False u s1 show ?thesis by simp
    qed
  qed
qed


lemma GetSecretValue_extends:
  "conn_GetSecretValue c input w = (out, err, w') \<Longrightarrow>
   extends_calls (\<lambda>ev. \<not> bare_removal_of_AWSCURRENT ev) w w'"
  by (auto simp: conn_GetSecretValue_def Let_def bare_removal_of_AWSCURRENT_def
      intro!: extends_calls_one)

lemma Read_attempt_extends:
  "Read_attempt c d input s = (r, out', w') \<Longrightarrow>
   extends_calls (\<lambda>ev. \<not> bare_removal_of_AWSCURRENT ev) (snd s) w'"
proof -
  assume a: "Read_attempt c d input s = (r, out', w')"
  obtain out err w1 where g: "conn_GetSecretValue c input (snd s) = (out, err, w1)"
    by (cases "conn_GetSecretValue c input (snd s)") auto
  with a have "w' = w1" by (auto simp: Read_attempt_def split: if_splits)
  with GetSecretValue_extends [OF g] show ?thesis by simp
qed

lemma Retry_Read_attempt_extends:
  "Retry budget (Read_attempt c d input) s = (err, out', w') \<Longrightarrow>
   extends_calls (\<lambda>ev. \<not> bare_removal_of_AWSCURRENT ev) (snd s) w'"
proof (induction budget arbitrary: s)
  case 0
  obtain r out1 w1 where a: "Read_attempt c d input s = (r, out1, w1)"
    by (cases "Read_attempt c d input s") auto
  with 0 have "w' = w1"
    by (auto split: option.splits RetryError.splits if_splits)
  with Read_attempt_extends [OF a] show ?case by simp
next
  case (Suc n)
  obtain r out1 w1 where a: "Read_attempt c d input s = (r, out1, w1)"
    by (cases "Read_attempt c d input s") auto
  note s1 = Read_attempt_extends [OF a]
  show ?case
  proof (cases "\<exists>e. r = Some (RetryError e True)")
    case True
    with Suc.prems a have "Retry n (Read_attempt c d input) (out1, w1) = (err, out', w')"
      by auto
    from Suc.IH [OF this] have "extends_calls (\<lambda>ev. \<not> bare_removal_of_AWSCURRENT ev) w1 w'"
      by simp
    with s1 show ?thesis by (rule extends_calls_trans)
  next
    case False
    with Suc.prems a have "w' = w1"
      by (auto split: option.splits RetryError.splits if_splits)
    with s1 show ?thesis by simp
  qed
qed

lemma Read_extends:
  "resourceAwsSecretsManagerSecretVersionRead base64Encode c budget d w = (r, d', w') \<Longrightarrow>
   extends_calls (\<lambda>ev. \<not> bare_removal_of_AWSCURRENT ev) w w'"
proof -
  assume a: "resourceAwsSecretsManagerSecretVersionRead base64Encode c budget d w = (r, d', w')"
  let ?P = "\<lambda>ev. \<not> bare_removal_of_AWSCURRENT ev"
  show ?thesis
  proof (cases "decodeSecretsManagerSecretVersionID (Id d)")
    case (Inl e)
    with a show ?thesis
      by (auto simp: resourceAwsSecretsManagerSecretVersionRead_def intro: extends_calls_refl)
  next
    case (Inr p)
    obtain secretID versionID where p: "p = (secretID, versionID)" by (cases p)
    let ?input = "\<lparr>gvi_SecretId = secretID, gvi_VersionId = versionID\<rparr>"
    obtain err1 out1 w1 where
      r: "Retry budget (Read_attempt c d ?input) (None, w) = (err1, out1, w1)"
      by (cases "Retry budget (Read_attempt c d ?input) (None, w)") auto
    from Retry_Read_attempt_extends [OF r] have s1: "extends_calls ?P w w1" by simp
    obtain out err w2 where
      t: "(if TimedOut err1 then conn_GetSecretValue c ?input w1 else (out1, err1, w1))
            = (out, err, w2)"
      by (cases "if TimedOut err1 then conn_GetSecretValue c ?input w1 else (out1, err1, w1)")
        auto
    then have "extends_calls ?P w1 w2"
      by (auto split: if_splits intro: GetSecretValue_extends extends_calls_refl)
    with s1 have s2: "extends_calls ?P w w2" by (rule extends_calls_trans)
    from a Inr p r t have "calls w' = calls w2"
      by (auto simp: resourceAwsSecretsManagerSecretVersionRead_def Let_def
          split: if_splits option.splits)
    with s2 show ?thesis by (auto simp: extends_calls_def)
  qed
qed

lemma Update_extends:
  assumes "resourceAwsSecretsManagerSecretVersionUpdate base64Encode c budget d w
             = Some (r, d', w')"
  shows "extends_calls (\<lambda>ev. \<not> bare_removal_of_AWSCURRENT ev) w w'"
proof -
  let ?P = "\<lambda>ev. \<not> bare_removal_of_AWSCURRENT ev"
  show ?thesis
  proof (cases "decodeSecretsManagerSecretVersionID (Id d)")
    case (Inl e)
    with assms show ?thesis
      by (auto simp: resourceAwsSecretsManagerSecretVersionUpdate_def intro: extends_calls_refl)
  next
    case (Inr p)
    obtain secretID versionID where p: "p = (secretID, versionID)" by (cases p)
    from assms Inr p obtain r1 w1 where
      a: "add_stages c secretID versionID (stagesToAdd d) False (Some versionID) w = Some (r1, w1)"
      by (cases "add_stages c secretID versionID (stagesToAdd d) False (Some versionID) w")
        (auto simp: resourceAwsSecretsManagerSecretVersionUpdate_def)
    note s1 = add_stages_extends [OF a]
    show ?thesis
    proof (cases r1)
      case (Inl f)
      with assms Inr p a s1 show ?thesis
        by (auto simp: resourceAwsSecretsManagerSecretVersionUpdate_def)
    next
      case (Inr prev)
      obtain e w2 where
        rm: "remove_stages c secretID versionID prev (stagesToRemove d) w1 = (e, w2)"
        by (cases "remove_stages c secretID versionID prev (stagesToRemove d) w1")
      from remove_stages_extends [of w1 c secretID versionID prev "stagesToRemove d"] rm
      have "extends_calls ?P w1 w2" by simp
      with s1 have s2: "extends_calls ?P w w2" by (rule extends_calls_trans)
      show ?thesis
      proof (cases e)
        case (Some err)
        with assms \<open>decodeSecretsManagerSecretVersionID (Id d) = Inr p\<close> p a Inr rm s2
        show ?thesis by (auto simp: resourceAwsSecretsManagerSecretVersionUpdate_def)
      next
        case None
        with assms \<open>decodeSecretsManagerSecretVersionID (Id d) = Inr p\<close> p a Inr rm
        have "resourceAwsSecretsManagerSecretVersionRead base64Encode c budget d w2 = (r, d', w')"
          by (auto simp: resourceAwsSecretsManagerSecretVersionUpdate_def)
        from s2 Read_extends [OF this] show ?thesis by (rule extends_calls_trans)
      qed
    qed
  qed
qed

lemma remove_stages_append:
  "remove_stages c secretID versionID prev (xs @ ys) w =
     (case remove_stages c secretID versionID prev xs w of
        (Some e, w') \<Rightarrow> (Some e, w')
      | (None, w') \<Rightarrow> remove_stages c secretID versionID prev ys w')"
proof (induction xs arbitrary: w)
  case Nil
  show ?case by simp
next
  case (Cons x xs)
  show ?case
    by (simp add: Cons.IH Let_def split: prod.splits option.splits)
qed

lemma remove_stages_logs_irrelevant:
  "calls w1 = calls w2 \<Longrightarrow>
   fst (remove_stages c secretID versionID prev stages w1)
     = fst (remove_stages c secretID versionID prev stages w2)
   \<and> calls (snd (remove_stages c secretID versionID prev stages w1))
     = calls (snd (remove_stages c secretID versionID prev stages w2))"
proof (induction stages arbitrary: w1 w2)
  case Nil
  then show ?case by simp
next
  case (Cons stage rest)
  show ?case
  proof (cases "stage = AWSCURRENT")
    case True
    with Cons.IH [of "logPrintf
                ''[INFO] Skipping removal of AWSCURRENT staging label for secret %q version %q''
                [secretID, versionID] w1" "logPrintf
                ''[INFO] Skipping removal of AWSCURRENT staging label for secret %q version %q''
                [secretID, versionID] w2"] Cons.prems
    show ?thesis by simp
  next
    case False
    let ?input = "\<lparr>MoveToVersionId = None, RemoveFromVersionId = prev,
                       SecretId = secretID, VersionStage = stage\<rparr>"
    let ?l = "logPrintfInput ''[DEBUG] Updating Secrets Manager Secret Version Stage: %s'' ?input"
    obtain e1 v1 where u1: "conn_UpdateSecretVersionStage c ?input (?l w1) = (e1, v1)"
      by (cases "conn_UpdateSecretVersionStage c ?input (?l w1)")
    obtain e2 v2 where u2: "conn_UpdateSecretVersionStage c ?input (?l w2) = (e2, v2)"
      by (cases "conn_UpdateSecretVersionStage c ?input (?l w2)")
    from u1 u2 Cons.prems have eq: "e2 = e1" "calls v1 = calls v2"
      by (auto simp: conn_UpdateSecretVersionStage_def Let_def)
    from u2 eq have u2': "conn_UpdateSecretVersionStage c ?input (?l w2) = (e1, v2)" by simp
    show ?thesis
    proof (cases e1)
      case None
      with False u1 u2' eq(2) Cons.IH [of v1 v2] show ?thesis by simp
    next
      case (Some e)
      with False u1 u2' eq(2) show ?thesis by simp
    qed
  qed
qed

lemma remove_stages_filter:
  "fst (remove_stages c secretID versionID prev stages w)
     = fst (remove_stages c secretID versionID prev (filter (\<lambda>s. s \<noteq> AWSCURRENT) stages) w)
   \<and> calls (snd (remove_stages c secretID versionID prev stages w))
     = calls (snd (remove_stages c secretID versionID prev
                     (filter (\<lambda>s. s \<noteq> AWSCURRENT) stages) w))"
proof (induction stages arbitrary: w)
  case Nil
  show ?case by simp
next
  case (Cons stage rest)
  show ?case
  proof (cases "stage = AWSCURRENT")
    case True
    let ?w1 = "logPrintf
                ''[INFO] Skipping removal of AWSCURRENT staging label for secret %q version %q''
                [secretID, versionID] w"
    have "calls ?w1 = calls w" by simp
    from remove_stages_logs_irrelevant [OF this, of c secretID versionID prev
        "filter (\<lambda>s. s \<noteq> AWSCURRENT) rest"] Cons.IH [of ?w1] True
    show ?thesis by simp
  next
    case False
    with Cons.IH show ?thesis
      by (simp add: Let_def split: prod.splits option.splits)
  qed
qed

text \<open>
  C4: Update never issues a bare removal of \<^verbatim>\<open>AWSCURRENT\<close>: none of the calls of a run
  of Update is one. In the removal loop the label is skipped wherever it stands in
  \<^verbatim>\<open>stagesToRemove\<close>: the loop logs the line, makes no call for it and goes on with the
  labels after it; the error it returns and the calls it makes are those of the loop
  over the other labels alone.
\<close>

theorem Update_skips_removal_of_AWSCURRENT:
  "(\<forall>r d' w'.
      resourceAwsSecretsManagerSecretVersionUpdate base64Encode c budget d w = Some (r, d', w') \<longrightarrow>
      (\<exists>evs. calls w' = calls w @ evs
             \<and> (\<forall>ev \<in> set evs. \<not> bare_removal_of_AWSCURRENT ev)))
   \<and> remove_stages c secretID versionID prev (before @ AWSCURRENT # rest) w0 =
       (case remove_stages c secretID versionID prev before w0 of
          (Some e, w1) \<Rightarrow> (Some e, w1)
        | (None, w1) \<Rightarrow>
            remove_stages c secretID versionID prev rest
              (logPrintf
                 ''[INFO] Skipping removal of AWSCURRENT staging label for secret %q version %q''
                 [secretID, versionID] w1))
   \<and> fst (remove_stages c secretID versionID prev stages w0)
       = fst (remove_stages c secretID versionID prev
                (filter (\<lambda>s. s \<noteq> AWSCURRENT) stages) w0)
   \<and> calls (snd (remove_stages c secretID versionID prev stages w0))
       = calls (snd (remove_stages c secretID versionID prev
                       (filter (\<lambda>s. s \<noteq> AWSCURRENT) stages) w0))"
proof (intro conjI allI impI)
  fix r d' w'
  assume "resourceAwsSecretsManagerSecretVersionUpdate base64Encode c budget d w
            = Some (r, d', w')"
  then have "extends_calls (\<lambda>ev. \<not> bare_removal_of_AWSCURRENT ev) w w'"
    by (rule Update_extends)
  then show "\<exists>evs. calls w' = calls w @ evs
                \<and> (\<forall>ev \<in> set evs. \<not> bare_removal_of_AWSCURRENT ev)"
    by (auto simp: extends_calls_def list_all_iff)
next
  show "remove_stages c secretID versionID prev (before @ AWSCURRENT # rest) w0 =
       (case remove_stages c secretID versionID prev before w0 of
          (Some e, w1) \<Rightarrow> (Some e, w1)
        | (None, w1) \<Rightarrow>
            remove_stages c secretID versionID prev rest
              (logPrintf
                 ''[INFO] Skipping removal of AWSCURRENT staging label for secret %q version %q''
                 [secretID, versionID] w1))"
    by (simp add: remove_stages_append split: prod.splits option.splits)
next
  show "fst (remove_stages c secretID versionID prev stages w0)
       = fst (remove_stages c secretID versionID prev
                (filter (\<lambda>s. s \<noteq> AWSCURRENT) stages) w0)"
    using remove_stages_filter [of c secretID versionID prev stages w0] by simp
next
  show "calls (snd (remove_stages c secretID versionID prev stages w0))
       = calls (snd (remove_stages c secretID versionID prev
                       (filter (\<lambda>s. s \<noteq> AWSCURRENT) stages) w0))"
    using remove_stages_filter [of c secretID versionID prev stages w0] by simp
qed

theorem Update_skips_removal_of_AWSCURRENT_witness:
  "map_option (\<lambda>(r, d, w). (r, calls w, logs w))
     (resourceAwsSecretsManagerSecretVersionUpdate (\<lambda>b. b) two_page_store 0
        (example_data [''AWSCURRENT'', ''STAGING''] []) no_io) =
   Some (None,
     [EvUpdateSecretVersionStage
        \<lparr>MoveToVersionId = None, RemoveFromVersionId = Some ''v2'',
           SecretId = ''sec'', VersionStage = ''STAGING''\<rparr> None,
      EvGetSecretValue \<lparr>gvi_SecretId = ''sec'', gvi_VersionId = ''v2''\<rparr>
        (Some example_output, None)],
     [Printf ''[INFO] Skipping removal of AWSCURRENT staging label for secret %q version %q''
        [''sec'', ''v2''],
      PrintfInput ''[DEBUG] Updating Secrets Manager Secret Version Stage: %s''
        \<lparr>MoveToVersionId = None, RemoveFromVersionId = Some ''v2'',
           SecretId = ''sec'', VersionStage = ''STAGING''\<rparr>])"
  using Update_skips_removal_of_AWSCURRENT
    [where base64Encode = "\<lambda>b. b" and c = two_page_store and budget = 0
       and d = "example_data [''AWSCURRENT'', ''STAGING''] []" and w = no_io
       and secretID = "''sec''" and versionID = "''v2''" and prev = "Some ''v2''"
       and before = "[]" and rest = "[''STAGING'']" and ?w0.0 = no_io
       and stages = "[''AWSCURRENT'', ''STAGING'']"]
  by (simp add: eval_defs two_page_store_def example_data_def example_output_def no_io_def)

section \<open>Delete\<close>

lemma delete_stages_trace:
  "\<exists>n rs. n \<le> length stages
     \<and> length rs = length (filter (\<lambda>s. s \<noteq> AWSCURRENT) (take n stages))
     \<and> calls (snd (delete_stages c secretID versionID stages w)) =
         calls w @ map (\<lambda>(stage, r). EvUpdateSecretVersionStage
                          \<lparr>MoveToVersionId = None, RemoveFromVersionId = Some versionID,
                             SecretId = secretID, VersionStage = stage\<rparr> r)
                     (zip (filter (\<lambda>s. s \<noteq> AWSCURRENT) (take n stages)) rs)
     \<and> logs (snd (delete_stages c secretID versionID stages w)) =
         logs w @ map (\<lambda>stage.
           if stage = AWSCURRENT
           then Printf ''[WARN] Cannot remove AWSCURRENT staging label, which may leave the secret %q version %q active''
                  [secretID, versionID]
           else PrintfInput ''[DEBUG] Updating Secrets Manager Secret Version Stage: %s''
                  \<lparr>MoveToVersionId = None, RemoveFromVersionId = Some versionID,
                     SecretId = secretID, VersionStage = stage\<rparr>) (take n stages)
     \<and> (\<forall>r \<in> set (butlast rs). r = None)
     \<and> ((\<forall>r \<in> set rs. r = None) \<longrightarrow>
            n = length stages \<and> fst (delete_stages c secretID versionID stages w) = None)
     \<and> (\<forall>e. Some e \<in> set rs \<longrightarrow> absence_error e \<longrightarrow>
            fst (delete_stages c secretID versionID stages w) = None)
     \<and> (\<forall>e. Some e \<in> set rs \<longrightarrow> \<not> absence_error e \<longrightarrow>
            fst (delete_stages c secretID versionID stages w) \<noteq> None)"
  (is "\<exists>n rs. ?Q n rs stages w")
proof (induction stages arbitrary: w)
  case Nil
  have "?Q 0 [] [] w" by simp
  then show ?case by blast
next
  case (Cons stage rest)
  show ?case
  proof (cases "stage = AWSCURRENT")
    case True
    let ?w1 = "logPrintf
                ''[WARN] Cannot remove AWSCURRENT staging label, which may leave the secret %q version %q active''
                [secretID, versionID] w"
    from Cons.IH [of ?w1] obtain n rs where rs: "?Q n rs rest ?w1" by blast
    have "?Q (Suc n) rs (stage # rest) w"
      using rs True by (simp add: logPrintf_def)
    then show ?thesis by blast
  next
    case False
    let ?input = "\<lparr>MoveToVersionId = None, RemoveFromVersionId = Some versionID,
                       SecretId = secretID, VersionStage = stage\<rparr>"
    let ?w1 = "logPrintfInput ''[DEBUG] Updating Secrets Manager Secret Version Stage: %s''
                   ?input w"
    obtain err w2 where u: "conn_UpdateSecretVersionStage c ?input ?w1 = (err, w2)"
      by (cases "conn_UpdateSecretVersionStage c ?input ?w1")
    then have w2: "calls w2 = calls w @ [EvUpdateSecretVersionStage ?input err]"
      "logs w2 = logs w @ [PrintfInput ''[DEBUG] Updating Secrets Manager Secret Version Stage: %s''
                   ?input]"
      by (auto simp: conn_UpdateSecretVersionStage_def Let_def logPrintfInput_def)
    show ?thesis
    proof (cases err)
      case None
      from Cons.IH [of w2] obtain n rs where rs: "?Q n rs rest w2" by blast
      have "?Q (Suc n) (None # rs) (stage # rest) w"
        using rs False u None w2 by simp
      then show ?thesis by blast
    next
      case (Some e0)
      have "?Q (Suc 0) [Some e0] (stage # rest) w"
        using False u Some w2 by (simp add: absence_error_def)
      then show ?thesis by blast
    qed
  qed
qed

text \<open>
  C9 (as the code has it): a Delete whose resource ID does not decode returns the decode
  error and makes no call. Otherwise Delete goes through the labels that the version
  holds, in order, up to the first remove call that fails: on the way \<^verbatim>\<open>AWSCURRENT\<close> is
  skipped with the warning and no call, and every other label gets one remove call, a
  removal from the version. No call is made for the labels after a failing call. When no
  call fails, all the labels are gone through and Delete returns no error; when a call
  fails with an absence error, Delete returns no error; when it fails with another error,
  Delete returns an error.
\<close>

theorem Delete_removes_stages_except_AWSCURRENT:
  "(\<forall>e. decodeSecretsManagerSecretVersionID (Id d) = Inl e \<longrightarrow>
       resourceAwsSecretsManagerSecretVersionDelete c d w = (Some e, w))
   \<and> (\<forall>secretID versionID.
        decodeSecretsManagerSecretVersionID (Id d) = Inr (secretID, versionID) \<longrightarrow>
        (\<exists>n rs. n \<le> length (version_stages d)
           \<and> length rs = length (filter (\<lambda>s. s \<noteq> AWSCURRENT) (take n (version_stages d)))
           \<and> calls (snd (resourceAwsSecretsManagerSecretVersionDelete c d w)) =
               calls w @ map (\<lambda>(stage, r). EvUpdateSecretVersionStage
                                \<lparr>MoveToVersionId = None, RemoveFromVersionId = Some versionID,
                                   SecretId = secretID, VersionStage = stage\<rparr> r)
                           (zip (filter (\<lambda>s. s \<noteq> AWSCURRENT) (take n (version_stages d))) rs)
           \<and> logs (snd (resourceAwsSecretsManagerSecretVersionDelete c d w)) =
               logs w @ map (\<lambda>stage.
                 if stage = AWSCURRENT
                 then Printf ''[WARN] Cannot remove AWSCURRENT staging label, which may leave the secret %q version %q active''
                        [secretID, versionID]
                 else PrintfInput ''[DEBUG] Updating Secrets Manager Secret Version Stage: %s''
                        \<lparr>MoveToVersionId = None, RemoveFromVersionId = Some versionID,
                           SecretId = secretID, VersionStage = stage\<rparr>)
                 (take n (version_stages d))
           \<and> (\<forall>r \<in> set (butlast rs). r = None)
           \<and> ((\<forall>r \<in> set rs. r = None) \<longrightarrow>
                  n = length (version_stages d)
                  \<and> fst (resourceAwsSecretsManagerSecretVersionDelete c d w) = None)
           \<and> (\<forall>e. Some e \<in> set rs \<longrightarrow> absence_error e \<longrightarrow>
                  fst (resourceAwsSecretsManagerSecretVersionDelete c d w) = None)
           \<and> (\<forall>e. Some e \<in> set rs \<longrightarrow> \<not> absence_error e \<longrightarrow>
                  fst (resourceAwsSecretsManagerSecretVersionDelete c d w) \<noteq> None)))"
proof (intro conjI allI impI)
  fix e
  assume "decodeSecretsManagerSecretVersionID (Id d) = Inl e"
  then show "resourceAwsSecretsManagerSecretVersionDelete c d w = (Some e, w)"
    by (simp add: resourceAwsSecretsManagerSecretVersionDelete_def)
next
  fix secretID versionID
  assume dec: "decodeSecretsManagerSecretVersionID (Id d) = Inr (secretID, versionID)"
  have "resourceAwsSecretsManagerSecretVersionDelete c d w
          = delete_stages c secretID versionID (version_stages d) w"
    using dec
    by (cases "version_stages d")
       (simp_all add: resourceAwsSecretsManagerSecretVersionDelete_def)
  with delete_stages_trace [of "version_stages d" c secretID versionID w]
  show "\<exists>n rs. n \<le> length (version_stages d)
           \<and> length rs = length (filter (\<lambda>s. s \<noteq> AWSCURRENT) (take n (version_stages d)))
           \<and> calls (snd (resourceAwsSecretsManagerSecretVersionDelete c d w)) =
               calls w @ map (\<lambda>(stage, r). EvUpdateSecretVersionStage
                                \<lparr>MoveToVersionId = None, RemoveFromVersionId = Some versionID,
                                   SecretId = secretID, VersionStage = stage\<rparr> r)
                           (zip (filter (\<lambda>s. s \<noteq> AWSCURRENT) (take n (version_stages d))) rs)
           \<and> logs (snd (resourceAwsSecretsManagerSecretVersionDelete c d w)) =
               logs w @ map (\<lambda>stage.
                 if stage = AWSCURRENT
                 then Printf ''[WARN] Cannot remove AWSCURRENT staging label, which may leave the secret %q version %q active''
                        [secretID, versionID]
                 else PrintfInput ''[DEBUG] Updating Secrets Manager Secret Version Stage: %s''
                        \<lparr>MoveToVersionId = None, RemoveFromVersionId = Some versionID,
                           SecretId = secretID, VersionStage = stage\<rparr>)
                 (take n (version_stages d))
           \<and> (\<forall>r \<in> set (butlast rs). r = None)
           \<and> ((\<forall>r \<in> set rs. r = None) \<longrightarrow>
                  n = length (version_stages d)
                  \<and> fst (resourceAwsSecretsManagerSecretVersionDelete c d w) = None)
           \<and> (\<forall>e. Some e \<in> set rs \<longrightarrow> absence_error e \<longrightarrow>
                  fst (resourceAwsSecretsManagerSecretVersionDelete c d w) = None)
           \<and> (\<forall>e. Some e \<in> set rs \<longrightarrow> \<not> absence_error e \<longrightarrow>
                  fst (resourceAwsSecretsManagerSecretVersionDelete c d w) \<noteq> None)"
    by simp
qed

theorem Delete_removes_stages_except_AWSCURRENT_witness:
  "decodeSecretsManagerSecretVersionID (Id (example_data [] [''AWSCURRENT'', ''A'', ''B'']))
     = Inr (''sec'', ''v2'')
   \<and> resourceAwsSecretsManagerSecretVersionDelete two_page_store
       (example_data [] [''AWSCURRENT'', ''A'', ''B'']) no_io =
       (None,
        \<lparr>calls =
           [EvUpdateSecretVersionStage
              \<lparr>MoveToVersionId = None, RemoveFromVersionId = Some ''v2'',
                 SecretId = ''sec'', VersionStage = ''A''\<rparr> None,
            EvUpdateSecretVersionStage
              \<lparr>MoveToVersionId = None, RemoveFromVersionId = Some ''v2'',
                 SecretId = ''sec'', VersionStage = ''B''\<rparr> None],
         logs =
           [Printf ''[WARN] Cannot remove AWSCURRENT staging label, which may leave the secret %q version %q active''
              [''sec'', ''v2''],
            PrintfInput ''[DEBUG] Updating Secrets Manager Secret Version Stage: %s''
              \<lparr>MoveToVersionId = None, RemoveFromVersionId = Some ''v2'',
                 SecretId = ''sec'', VersionStage = ''A''\<rparr>,
            PrintfInput ''[DEBUG] Updating Secrets Manager Secret Version Stage: %s''
              \<lparr>MoveToVersionId = None, RemoveFromVersionId = Some ''v2'',
                 SecretId = ''sec'', VersionStage = ''B''\<rparr>]\<rparr>)
   \<and> absence_error (AWSError ''ResourceNotFoundException'' ''gone'')
   \<and> resourceAwsSecretsManagerSecretVersionDelete deleted_store
       (example_data [] [''AWSCURRENT'', ''A'']) no_io =
       (None,
        \<lparr>calls =
           [EvUpdateSecretVersionStage
              \<lparr>MoveToVersionId = None, RemoveFromVersionId = Some ''v2'',
                 SecretId = ''sec'', VersionStage = ''A''\<rparr>
              (Some (AWSError ''ResourceNotFoundException'' ''gone''))],
         logs =
           [Printf ''[WARN] Cannot remove AWSCURRENT staging label, which may leave the secret %q version %q active''
              [''sec'', ''v2''],
            PrintfInput ''[DEBUG] Updating Secrets Manager Secret Version Stage: %s''
              \<lparr>MoveToVersionId = None, RemoveFromVersionId = Some ''v2'',
                 SecretId = ''sec'', VersionStage = ''A''\<rparr>]\<rparr>)
   \<and> (\<exists>e. decodeSecretsManagerSecretVersionID (Id ((example_data [] [''A''])\<lparr>Id := ''sec''\<rparr>))
            = Inl e
          \<and> resourceAwsSecretsManagerSecretVersionDelete two_page_store
              ((example_data [] [''A''])\<lparr>Id := ''sec''\<rparr>) no_io = (Some e, no_io))"
  using Delete_removes_stages_except_AWSCURRENT
    [where d = "example_data [] [''AWSCURRENT'', ''A'', ''B'']" and c = two_page_store
       and w = no_io]
    Delete_removes_stages_except_AWSCURRENT
    [where d = "(example_data [] [''A''])\<lparr>Id := ''sec''\<rparr>" and c = two_page_store
       and w = no_io]
  by (simp add: eval_defs absence_error_def two_page_store_def deleted_store_def
      example_data_def no_io_def)

text \<open>
  C9 (as stated) fails: with the labels \<open>A\<close> and \<open>B\<close> on a secret that is gone, the
  remove call for \<open>A\<close> fails with the not-found error and Delete returns at once, with
  no remove call for \<open>B\<close>.
\<close>

theorem Delete_stops_at_first_failing_call:
  "resourceAwsSecretsManagerSecretVersionDelete deleted_store
     (example_data [] [''A'', ''B'']) no_io =
     (None,
      \<lparr>calls =
         [EvUpdateSecretVersionStage
            \<lparr>MoveToVersionId = None, RemoveFromVersionId = Some ''v2'',
               SecretId = ''sec'', VersionStage = ''A''\<rparr>
            (Some (AWSError ''ResourceNotFoundException'' ''gone''))],
       logs =
         [PrintfInput ''[DEBUG] Updating Secrets Manager Secret Version Stage: %s''
            \<lparr>MoveToVersionId = None, RemoveFromVersionId = Some ''v2'',
               SecretId = ''sec'', VersionStage = ''A''\<rparr>]\<rparr>)"
  by (simp add: eval_defs deleted_store_def example_data_def no_io_def)

section \<open>Update with a label that no version holds, and with a plain addition\<close>

text \<open>
  C1: in a version history where no version carries \<^verbatim>\<open>AWSCURRENT\<close>, adding the label ends
  the pagination with a nil holder, and the log call that follows dereferences it: Update
  panics after the list request, before any stage update.
\<close>

theorem Update_panics_on_nil_holder:
  "resourceAwsSecretsManagerSecretVersionUpdate base64Encode store_without_AWSCURRENT budget
     (example_data [] [''AWSCURRENT'']) no_io =
   Some (Some Panic, example_data [] [''AWSCURRENT''],
     \<lparr>calls = [EvDescribeSecret ''sec'' None,
               EvListSecretVersionIds \<lparr>lvi_NextToken = None, lvi_SecretId = ''sec''\<rparr>
                 (Inr \<lparr>Versions = [\<lparr>VersionId = Some ''v1'',
                                      VersionStages = [Some ''AWSPREVIOUS'']\<rparr>],
                       NextToken = None\<rparr>)],
      logs = [Printf ''[DEBUG] Going to set AWSCURRENT staging label for secret %q version %q''
                [''sec'', ''v2'']]\<rparr>)"
  by (simp add: eval_defs store_without_AWSCURRENT_def example_data_def example_output_def
      no_io_def)

text \<open>
  C2: with the observed labels \<open>{STAGING}\<close> and the desired labels \<open>{OTHER}\<close> there is no
  relocation of \<^verbatim>\<open>AWSCURRENT\<close>, and yet the removal of \<open>STAGING\<close> names no version to
  remove it from: the addition of \<open>OTHER\<close> has overwritten \<^verbatim>\<open>awsPreviousVersionID\<close> with
  nil.
\<close>

theorem Update_removal_after_plain_addition:
  "map_option (\<lambda>(r, d, w). (r, calls w))
     (resourceAwsSecretsManagerSecretVersionUpdate base64Encode store_without_AWSCURRENT budget
        (example_data [''STAGING''] [''OTHER'']) no_io) =
   Some (None,
     [EvUpdateSecretVersionStage
        \<lparr>MoveToVersionId = Some ''v2'', RemoveFromVersionId = None,
           SecretId = ''sec'', VersionStage = ''OTHER''\<rparr> None,
      EvUpdateSecretVersionStage
        \<lparr>MoveToVersionId = None, RemoveFromVersionId = None,
           SecretId = ''sec'', VersionStage = ''STAGING''\<rparr> None,
      EvGetSecretValue \<lparr>gvi_SecretId = ''sec'', gvi_VersionId = ''v2''\<rparr>
        (Some example_output, None)])"
  by (simp add: eval_defs store_without_AWSCURRENT_def example_data_def example_output_def
      no_io_def)

section \<open>Tag updates with nothing to do\<close>

lemma Removed_same: "Removed tags tags = Map.empty"
  by (auto simp: Removed_def)

lemma Updated_same: "Updated tags tags = Map.empty"
  by (auto simp: Updated_def split: option.splits)

text \<open>
  C10: when the removed tags and the updated tags computed from the old and the new tags
  are both empty, UpdateTags makes no call, neither untag nor tag, and returns no error;
  this is so in particular when the old and the new tags are the same.
\<close>

theorem UpdateTags_nothing_to_do:
  "(Removed oldTags newTags = Map.empty \<and> Updated oldTags newTags = Map.empty \<longrightarrow>
      UpdateTags IgnoreAWS conn ident oldTags newTags tr = (None, tr))
   \<and> UpdateTags IgnoreAWS conn ident tags tags tr = (None, tr)"
  by (simp add: UpdateTags_def Removed_same Updated_same)

theorem UpdateTags_nothing_to_do_witness:
  "Removed [''env'' \<mapsto> ''prod''] [''env'' \<mapsto> ''prod''] = Map.empty
   \<and> Updated [''env'' \<mapsto> ''prod''] [''env'' \<mapsto> ''prod''] = Map.empty
   \<and> UpdateTags (\<lambda>tags. tags)
       \<lparr>UntagResource = (\<lambda>h input. Some (OtherError ''unreachable'')),
        TagResource = (\<lambda>h input. Some (OtherError ''unreachable''))\<rparr>
       ''arn:aws:ivschat:room'' [''env'' \<mapsto> ''prod''] [''env'' \<mapsto> ''prod''] [] = (None, [])"
  using UpdateTags_nothing_to_do
    [where oldTags = "[''env'' \<mapsto> ''prod'']" and newTags = "[''env'' \<mapsto> ''prod'']"
       and IgnoreAWS = "\<lambda>tags. tags"
       and conn = "\<lparr>UntagResource = (\<lambda>h input. Some (OtherError ''unreachable'')),
                     TagResource = (\<lambda>h input. Some (OtherError ''unreachable''))\<rparr>"
       and ident = "''arn:aws:ivschat:room''" and tr = "[]"
       and tags = "[''env'' \<mapsto> ''prod'']"]
  by (simp add: Removed_same Updated_same)

end
